theory Spec2Isabelle
  imports Complex_Main
begin

section \<open>Data model\<close>

text \<open>
  The detector works on hand landmarks delivered by the pose library: every detected hand
  is an object whose \<^verbatim>\<open>landmark\<close> attribute is a sequence of points with normalized
  coordinates \<^verbatim>\<open>x\<close> and \<^verbatim>\<open>y\<close>, which are Python floats. The record fields carry a
  prefix because \<open>x\<close> and \<open>y\<close> would capture variable names.

  The two classifier functions compute on these coordinates with the machine arithmetic of
  Python and numpy, which rounds after every operation. The model does not fix that
  arithmetic: the type of floats is a type variable, and the operations the source applies
  to floats are the fields of a record that every classifier definition takes as its first
  argument. What is proved for every such record holds of the arithmetic the source runs
  on, whatever it rounds to and whatever it does with NaN and infinities. The arithmetic
  of IEEE doubles is given further below as \<open>double_arith\<close>; the definitions are evaluated
  in it at concrete hands. The timestamps of the loop are modelled as real numbers.
\<close>

record 'f landmark =
  lm_x :: 'f
  lm_y :: 'f

type_synonym 'f hand_landmarks = "'f landmark list"

text \<open>
  The operations on floats that the classifier uses: \<^verbatim>\<open>+\<close>, \<^verbatim>\<open>-\<close>, \<^verbatim>\<open>/\<close>, \<^verbatim>\<open>** 2\<close>,
  \<^verbatim>\<open>np.sqrt\<close>, \<^verbatim>\<open>np.mean\<close> of a list, the comparison \<^verbatim>\<open><\<close>, and the float that a numeric
  literal of the source denotes. The source's \<^verbatim>\<open>a > b\<close> is \<^verbatim>\<open>b < a\<close>.
\<close>

record 'f arith =
  f_add :: "'f \<Rightarrow> 'f \<Rightarrow> 'f"
  f_sub :: "'f \<Rightarrow> 'f \<Rightarrow> 'f"
  f_div :: "'f \<Rightarrow> 'f \<Rightarrow> 'f"
  f_sq :: "'f \<Rightarrow> 'f"
  f_sqrt :: "'f \<Rightarrow> 'f"
  f_mean :: "'f list \<Rightarrow> 'f"
  f_lt :: "'f \<Rightarrow> 'f \<Rightarrow> bool"
  f_lit :: "real \<Rightarrow> 'f"

text \<open>Exceptions of the Python code, as values.\<close>

datatype exn = IndexError | ValueError | AttributeError | RemoteError | OSError

section \<open>Gesture classifier (performative\_detector.py)\<close>

text \<open>The loop of \<^verbatim>\<open>detect_holding_gesture\<close> that fills \<^verbatim>\<open>hand_centers\<close>, one entry per hand.\<close>

fun hand_centers_loop :: "'f arith \<Rightarrow> 'f hand_landmarks list \<Rightarrow> ('f \<times> 'f) list" where
  "hand_centers_loop A [] = []"
| "hand_centers_loop A (hand_landmarks # rest) =
     (let x_coords = map lm_x hand_landmarks;
          y_coords = map lm_y hand_landmarks;
          center_x = f_mean A x_coords;
          center_y = f_mean A y_coords
      in (center_x, center_y) # hand_centers_loop A rest)"

text \<open>
  \<^verbatim>\<open>detect_holding_gesture(hand_landmarks_list, image_shape)\<close>. The early return for fewer
  than two hands comes before \<^verbatim>\<open>height, width = image_shape[:2]\<close>, which raises
  \<^verbatim>\<open>ValueError\<close> when the shape has fewer than two entries. The indices 0 and 1 of
  \<^verbatim>\<open>hand_centers\<close> are read only behind the test of its length.
\<close>

definition detect_holding_gesture ::
    "'f arith \<Rightarrow> 'f hand_landmarks list \<Rightarrow> nat list \<Rightarrow> exn + bool" where
  "detect_holding_gesture A hand_landmarks_list image_shape =
     (if length hand_landmarks_list < 2 then Inr False
      else if length (take 2 image_shape) \<noteq> 2 then Inl ValueError
      else
        let hand_centers = hand_centers_loop A hand_landmarks_list in
        if length hand_centers < 2 then Inr False
        else
          (let c0 = hand_centers ! 0;
               c1 = hand_centers ! 1;
               dist = f_sqrt A (f_add A (f_sq A (f_sub A (fst c0) (fst c1)))
                                        (f_sq A (f_sub A (snd c0) (snd c1))))
           in if f_lt A dist (f_lit A 0.5) then
                (let avg_x = f_div A (f_add A (fst c0) (fst c1)) (f_lit A 2);
                     avg_y = f_div A (f_add A (snd c0) (snd c1)) (f_lit A 2)
                 in if f_lt A (f_lit A 0.1) avg_x \<and> f_lt A avg_x (f_lit A 0.9)
                       \<and> f_lt A (f_lit A 0.1) avg_y \<and> f_lt A avg_y (f_lit A 0.95)
                    then Inr True else Inr False)
              else Inr False))"

text \<open>
  \<^verbatim>\<open>detect_single_hand_holding(hand_landmarks, image_shape)\<close>. The landmarks 0, 4, 8, 12,
  16, 20, 5 and 9 are read first; reading index 20 raises \<^verbatim>\<open>IndexError\<close> on a sequence
  of fewer than 21 points. Python's \<^verbatim>\<open>** 2\<close> raises \<^verbatim>\<open>OverflowError\<close> where the square
  is beyond the doubles; the coordinates of the pose library are single-precision numbers,
  whose differences squared stay far below that, so the square is modelled as total.
\<close>

definition detect_single_hand_holding ::
    "'f arith \<Rightarrow> 'f hand_landmarks \<Rightarrow> nat list \<Rightarrow> exn + bool" where
  "detect_single_hand_holding A hand_landmarks image_shape =
     (if length hand_landmarks \<le> 20 then Inl IndexError
      else
        let wrist = hand_landmarks ! 0;
            thumb_tip = hand_landmarks ! 4;
            index_tip = hand_landmarks ! 8;
            middle_tip = hand_landmarks ! 12;
            index_mcp = hand_landmarks ! 5;
            middle_mcp = hand_landmarks ! 9;
            index_curled = f_lt A (f_sub A (lm_y index_mcp) (f_lit A 0.08)) (lm_y index_tip);
            middle_curled = f_lt A (f_sub A (lm_y middle_mcp) (f_lit A 0.08)) (lm_y middle_tip);
            thumb_dist = f_sqrt A (f_add A (f_sq A (f_sub A (lm_x thumb_tip) (lm_x index_tip)))
                                           (f_sq A (f_sub A (lm_y thumb_tip) (lm_y index_tip))))
        in if f_lt A (f_lit A 0.1) (lm_x wrist) \<and> f_lt A (lm_x wrist) (f_lit A 0.9)
              \<and> f_lt A (f_lit A 0.1) (lm_y wrist) \<and> f_lt A (lm_y wrist) (f_lit A 0.95)
           then (if (index_curled \<or> middle_curled) \<and> f_lt A thumb_dist (f_lit A 0.3)
                 then Inr True else Inr False)
           else Inr False)"

text \<open>
  The block of \<^verbatim>\<open>run\<close> that computes \<^verbatim>\<open>holding_detected\<close> and \<^verbatim>\<open>num_hands\<close> from
  \<^verbatim>\<open>results.multi_hand_landmarks\<close>, which is \<^verbatim>\<open>None\<close> or a list of hands. The test
  \<^verbatim>\<open>if results.multi_hand_landmarks:\<close> is Python truthiness: false for \<^verbatim>\<open>None\<close> and for
  the empty list.
\<close>

definition run_holding_detected :: "'f hand_landmarks list option \<Rightarrow> bool \<times> nat" where
  "run_holding_detected multi_hand_landmarks =
     (let holding_detected = False; num_hands = (0::nat) in
      case multi_hand_landmarks of
        None \<Rightarrow> (holding_detected, num_hands)
      | Some hand_landmarks_list \<Rightarrow>
          if hand_landmarks_list = [] then (holding_detected, num_hands)
          else (True, length hand_landmarks_list))"

subsection \<open>The rules as the specification words them\<close>

text \<open>
  The centroid of a hand is the mean of its points, the distance is Euclidean, and both
  are the values the arithmetic computes.
\<close>

definition centroid :: "'f arith \<Rightarrow> 'f hand_landmarks \<Rightarrow> 'f \<times> 'f" where
  "centroid A h = (f_mean A (map lm_x h), f_mean A (map lm_y h))"

definition euclid :: "'f arith \<Rightarrow> 'f \<times> 'f \<Rightarrow> 'f \<times> 'f \<Rightarrow> 'f" where
  "euclid A p q =
     f_sqrt A (f_add A (f_sq A (f_sub A (fst p) (fst q))) (f_sq A (f_sub A (snd p) (snd q))))"

definition midpoint2 :: "'f arith \<Rightarrow> 'f \<times> 'f \<Rightarrow> 'f \<times> 'f \<Rightarrow> 'f \<times> 'f" where
  "midpoint2 A p q =
     (f_div A (f_add A (fst p) (fst q)) (f_lit A 2), f_div A (f_add A (snd p) (snd q)) (f_lit A 2))"

definition in_center_region :: "'f arith \<Rightarrow> 'f \<times> 'f \<Rightarrow> bool" where
  "in_center_region A p =
     (f_lt A (f_lit A 0.1) (fst p) \<and> f_lt A (fst p) (f_lit A 0.9)
      \<and> f_lt A (f_lit A 0.1) (snd p) \<and> f_lt A (snd p) (f_lit A 0.95))"

definition pt :: "'f landmark \<Rightarrow> 'f \<times> 'f" where
  "pt l = (lm_x l, lm_y l)"

text \<open>A fingertip lies below its knuckle minus the slack of 0.08 (a larger y).\<close>

definition below_knuckle :: "'f arith \<Rightarrow> 'f landmark \<Rightarrow> 'f landmark \<Rightarrow> bool" where
  "below_knuckle A tip mcp = f_lt A (f_sub A (lm_y mcp) (f_lit A 0.08)) (lm_y tip)"

text \<open>A fingertip lies above its knuckle minus the slack, so it is not at or below it.\<close>

definition above_knuckle :: "'f arith \<Rightarrow> 'f landmark \<Rightarrow> 'f landmark \<Rightarrow> bool" where
  "above_knuckle A tip mcp = f_lt A (lm_y tip) (f_sub A (lm_y mcp) (f_lit A 0.08))"

subsection \<open>An arithmetic for evaluation\<close>

text \<open>
  The arithmetic of the real numbers without rounding, with \<open>None\<close> for NaN: the mean of
  no numbers, a division by zero and the root of a negative number are NaN, NaN spreads
  through every operation, and every comparison with NaN is false. It states what the
  distance of two centroids is exactly, and evaluates the definitions where the rounding
  of the source plays no part.
\<close>

fun all_numbers :: "real option list \<Rightarrow> real list option" where
  "all_numbers [] = Some []"
| "all_numbers (v # vs) =
     (case (v, all_numbers vs) of
        (Some a, Some as) \<Rightarrow> Some (a # as)
      | _ \<Rightarrow> None)"

definition exact_mean :: "real option list \<Rightarrow> real option" where
  "exact_mean vs =
     (case all_numbers vs of
        None \<Rightarrow> None
      | Some as \<Rightarrow> if as = [] then None else Some (sum_list as / real (length as)))"

definition exact2 :: "(real \<Rightarrow> real \<Rightarrow> real) \<Rightarrow> real option \<Rightarrow> real option \<Rightarrow> real option" where
  "exact2 g a b = (case (a, b) of (Some u, Some v) \<Rightarrow> Some (g u v) | _ \<Rightarrow> None)"

definition exact_div :: "real option \<Rightarrow> real option \<Rightarrow> real option" where
  "exact_div a b =
     (case (a, b) of (Some u, Some v) \<Rightarrow> if v = 0 then None else Some (u / v) | _ \<Rightarrow> None)"

definition exact_sqrt :: "real option \<Rightarrow> real option" where
  "exact_sqrt a = (case a of None \<Rightarrow> None | Some u \<Rightarrow> if u < 0 then None else Some (sqrt u))"

definition exact_lt :: "real option \<Rightarrow> real option \<Rightarrow> bool" where
  "exact_lt a b = (case (a, b) of (Some u, Some v) \<Rightarrow> u < v | _ \<Rightarrow> False)"

definition exact_arith :: "real option arith" where
  "exact_arith =
     \<lparr>f_add = exact2 (+), f_sub = exact2 (-), f_div = exact_div,
      f_sq = map_option (\<lambda>u. u * u), f_sqrt = exact_sqrt, f_mean = exact_mean,
      f_lt = exact_lt, f_lit = Some\<rparr>"

text \<open>Concrete hands used for evaluation: all 21 points at one place, then single points moved.\<close>

definition hand_at :: "real \<Rightarrow> real \<Rightarrow> real option hand_landmarks" where
  "hand_at a b = replicate 21 \<lparr>lm_x = Some a, lm_y = Some b\<rparr>"

subsection \<open>The arithmetic of the source: IEEE doubles\<close>

text \<open>
  Python floats and numpy's \<^verbatim>\<open>float64\<close> are IEEE 754 binary64 numbers, and every operation
  rounds its exact result to the nearest double, ties to the even significand. A real
  \<open>x\<close> other than 0 with \<open>2^n \<le> |x| < 2^(n+1)\<close> is rounded to a multiple of \<open>2^(n-52)\<close>, or
  of \<open>2^-1074\<close> in the subnormal range; a rounded magnitude of \<open>2^1024\<close> or more is not a
  finite double. \<open>None\<close> stands for a result that is not a finite number: comparisons with
  it are false, which is right for NaN; the infinities are not told apart from NaN, and
  nothing computed from landmark coordinates comes near them.
\<close>

definition pow2 :: "int \<Rightarrow> real" where
  "pow2 k = (if 0 \<le> k then 2 ^ nat k else 1 / 2 ^ nat (- k))"

definition round_even :: "real \<Rightarrow> int" where
  "round_even x =
     (let n = \<lfloor>x\<rfloor>; r = x - of_int n
      in if r < 1/2 then n else if 1/2 < r then n + 1 else if even n then n else n + 1)"

definition double_of :: "real \<Rightarrow> real option" where
  "double_of x =
     (if x = 0 then Some 0
      else
        let e = max (\<lfloor>log 2 \<bar>x\<bar>\<rfloor> - 52) (- 1074);
            r = of_int (round_even (x / pow2 e)) * pow2 e
        in if \<bar>r\<bar> < pow2 1024 then Some r else None)"

definition double2 :: "(real \<Rightarrow> real \<Rightarrow> real) \<Rightarrow> real option \<Rightarrow> real option \<Rightarrow> real option" where
  "double2 g a b = (case (a, b) of (Some u, Some v) \<Rightarrow> double_of (g u v) | _ \<Rightarrow> None)"

definition double_div :: "real option \<Rightarrow> real option \<Rightarrow> real option" where
  "double_div a b =
     (case (a, b) of (Some u, Some v) \<Rightarrow> if v = 0 then None else double_of (u / v) | _ \<Rightarrow> None)"

definition double_sq :: "real option \<Rightarrow> real option" where
  "double_sq a = (case a of None \<Rightarrow> None | Some u \<Rightarrow> double_of (u * u))"

definition double_sqrt :: "real option \<Rightarrow> real option" where
  "double_sqrt a =
     (case a of None \<Rightarrow> None | Some u \<Rightarrow> if u < 0 then None else double_of (sqrt u))"

text \<open>
  \<^verbatim>\<open>np.mean\<close> adds the numbers, rounding after every addition, and divides the sum by
  their count; of no numbers it is NaN. numpy adds in an order of its own (in blocks, by
  pairs); \<open>double_mean\<close> adds from left to right. The two agree on every list all of whose
  partial sums, in whatever order, are doubles: no addition rounds there. The hands
  \<open>hand_left\<close> and \<open>hand_right\<close> below are such lists, their coordinates being small
  multiples of 1/4.
\<close>

definition double_mean :: "real option list \<Rightarrow> real option" where
  "double_mean vs =
     (if vs = [] then None
      else double_div (foldl (double2 (+)) (Some 0) vs) (double_of (real (length vs))))"

definition double_arith :: "real option arith" where
  "double_arith =
     \<lparr>f_add = double2 (+), f_sub = double2 (-), f_div = double_div,
      f_sq = double_sq, f_sqrt = double_sqrt, f_mean = double_mean,
      f_lt = exact_lt, f_lit = double_of\<rparr>"

text \<open>
  Two hands of 21 points with coordinates in quarters: 20 points at (0.25, 0.5) and one at
  (0.5, 0.5); 20 points at (0.75, 0.5) and one at (1, 0.5). Their exact centroids are
  (11/42, 1/2) and (16/21, 1/2), exactly 1/2 apart.
\<close>

definition quarter_hand :: "(int \<times> int) list \<Rightarrow> real option hand_landmarks" where
  "quarter_hand ps = map (\<lambda>(a, b). \<lparr>lm_x = Some (of_int a / 4), lm_y = Some (of_int b / 4)\<rparr>) ps"

definition hand_left :: "real option hand_landmarks" where
  "hand_left = quarter_hand (replicate 20 (1, 2) @ [(2, 2)])"

definition hand_right :: "real option hand_landmarks" where
  "hand_right = quarter_hand (replicate 20 (3, 2) @ [(4, 2)])"

text \<open>
  Doubles that the evaluations below arrive at: the rounded means 5.5/21 and 16/21, the
  largest double below 1/2, the double of the literal 0.08, and 0.5 minus that, rounded.
\<close>

definition cx_left :: real where
  "cx_left = 4718056752483377 / 2 ^ 54"

definition cx_right :: real where
  "cx_right = 6862628003612184 / 2 ^ 53"

definition below_half :: real where
  "below_half = 9007199254740991 / 2 ^ 54"

definition slack :: real where
  "slack = 5764607523034235 / 2 ^ 56"

definition knuckle_line :: real where
  "knuckle_line = 7566047373982433 / 2 ^ 54"

section \<open>Remote playback (spotify\_controller.py)\<close>

text \<open>
  The client object of the playback library is opaque; \<^verbatim>\<open>self.sp\<close> is \<^verbatim>\<open>None\<close> or a
  client. A playback status is the dictionary returned by \<^verbatim>\<open>current_playback()\<close>, of which
  the code reads \<^verbatim>\<open>['item']['uri']\<close> and \<^verbatim>\<open>['is_playing']\<close>.
\<close>

datatype client = Client

record item =
  uri :: string

record playback =
  pb_item :: "item option"
  pb_is_playing :: bool

record spotify_controller =
  sp :: "client option"
  device_id :: "string option"
  is_playing :: bool
  current_track_uri :: "string option"
  target_track_uri :: string
  window_opened :: bool

text \<open>
  Calls that leave the process, in the order they are made, and what the outside answers to
  each of them: a value, or an exception.
\<close>

datatype call =
    CurrentPlayback
  | StartPlayback "string option" "string list"
  | PausePlayback "string option"
  | Osascript

record env =
  current_playback_result :: "exn + playback option"
  start_playback_result :: "exn + unit"
  pause_playback_result :: "exn + unit"
  popen_result :: "exn + unit"

text \<open>The fields as \<^verbatim>\<open>__init__\<close> sets them before \<^verbatim>\<open>_initialize_spotify\<close> runs.\<close>

definition controller_new :: spotify_controller where
  "controller_new =
     \<lparr>sp = None, device_id = None, is_playing = False, current_track_uri = None,
      target_track_uri = ''spotify:track:2mWfVxEo4xZYDaz0v7hYrN'', window_opened = False\<rparr>"

text \<open>
  \<^verbatim>\<open>_initialize_spotify\<close>: without credentials the client stays \<^verbatim>\<open>None\<close>; otherwise the
  client is built and the first listed device, if any, is kept. Any exception on the way
  resets the client to \<^verbatim>\<open>None\<close>.
\<close>

record init_env =
  client_id :: "string option"
  client_secret :: "string option"
  devices_result :: "exn + string list"

definition falsy :: "string option \<Rightarrow> bool" where
  "falsy v = (v = None \<or> v = Some [])"

definition initialize_spotify :: "init_env \<Rightarrow> spotify_controller \<Rightarrow> spotify_controller" where
  "initialize_spotify ie self =
     (if falsy (client_id ie) \<or> falsy (client_secret ie) then self
      else
        let self1 = self\<lparr>sp := Some Client\<rparr> in
        case devices_result ie of
          Inl e \<Rightarrow> self1\<lparr>sp := None\<rparr>
        | Inr devices \<Rightarrow>
            (case devices of
               [] \<Rightarrow> self1
             | d # _ \<Rightarrow> self1\<lparr>device_id := Some d\<rparr>))"

definition is_spotify_available :: "spotify_controller \<Rightarrow> bool" where
  "is_spotify_available self = (sp self \<noteq> None \<and> device_id self \<noteq> None)"

text \<open>
  \<^verbatim>\<open>show_spotify_window\<close>: once per controller; a failure of the subprocess call is caught
  here and leaves \<^verbatim>\<open>window_opened\<close> as it was.
\<close>

definition show_spotify_window :: "env \<Rightarrow> spotify_controller \<Rightarrow> spotify_controller \<times> call list" where
  "show_spotify_window e self =
     (if window_opened self then (self, [])
      else case popen_result e of
             Inl ex \<Rightarrow> (self, [Osascript])
           | Inr _ \<Rightarrow> (self\<lparr>window_opened := True\<rparr>, [Osascript]))"

text \<open>
  The body of the \<^verbatim>\<open>try\<close> block of \<^verbatim>\<open>_play_juna_async\<close>: the value returned or the
  exception raised, the controller as it is at that point, and the calls made so far.
  With \<^verbatim>\<open>self.sp\<close> being \<^verbatim>\<open>None\<close> the attribute access raises before any call.
\<close>

definition play_juna_async_try ::
    "env \<Rightarrow> spotify_controller \<Rightarrow> (exn + bool) \<times> spotify_controller \<times> call list" where
  "play_juna_async_try e self =
     (case sp self of
        None \<Rightarrow> (Inl AttributeError, self, [])
      | Some _ \<Rightarrow>
          (case current_playback_result e of
             Inl ex \<Rightarrow> (Inl ex, self, [CurrentPlayback])
           | Inr current \<Rightarrow>
               if (case current of
                     None \<Rightarrow> False
                   | Some c \<Rightarrow>
                       (case pb_item c of
                          None \<Rightarrow> False
                        | Some it \<Rightarrow> uri it = target_track_uri self \<and> pb_is_playing c))
               then (Inr True, self, [CurrentPlayback])
               else
                 (let start = StartPlayback (device_id self) [target_track_uri self] in
                  case start_playback_result e of
                    Inl ex \<Rightarrow> (Inl ex, self, [CurrentPlayback, start])
                  | Inr _ \<Rightarrow>
                      (let self1 = self\<lparr>is_playing := True\<rparr>;
                           (self2, cs) = show_spotify_window e self1
                       in (Inr True, self2, [CurrentPlayback, start] @ cs)))))"

text \<open>\<^verbatim>\<open>_play_juna_async\<close>: the \<^verbatim>\<open>except\<close> clause turns every exception into \<^verbatim>\<open>False\<close>.\<close>

definition play_juna_async :: "env \<Rightarrow> spotify_controller \<Rightarrow> bool \<times> spotify_controller \<times> call list" where
  "play_juna_async e self =
     (case play_juna_async_try e self of
        (Inl ex, self', cs) \<Rightarrow> (False, self', cs)
      | (Inr r, self', cs) \<Rightarrow> (r, self', cs))"

text \<open>
  \<^verbatim>\<open>play_juna\<close> starts \<^verbatim>\<open>_play_juna_async\<close> on a daemon thread and returns at once. The
  model runs the thread to its end at the point where it is started, and drops the value
  the thread function returns, as the thread does; interleavings of the thread with the
  frame loop are not modelled.
\<close>

definition play_juna :: "env \<Rightarrow> spotify_controller \<Rightarrow> bool \<times> spotify_controller \<times> call list" where
  "play_juna e self =
     (case sp self of
        None \<Rightarrow> (False, self, [])
      | Some _ \<Rightarrow>
          (let (r, self', cs) = play_juna_async e self in (True, self', cs)))"

definition pause :: "env \<Rightarrow> spotify_controller \<Rightarrow> spotify_controller \<times> call list" where
  "pause e self =
     (if sp self = None \<or> \<not> is_playing self then (self, [])
      else case pause_playback_result e of
             Inl ex \<Rightarrow> (self, [PausePlayback (device_id self)])
           | Inr _ \<Rightarrow> (self\<lparr>is_playing := False\<rparr>, [PausePlayback (device_id self)]))"

section \<open>Debounce state machine (the loop of run)\<close>

record detector =
  spotify :: spotify_controller
  is_holding :: bool
  holding_start_time :: "real option"
  holding_duration_threshold :: real
  spotify_mode :: bool
  spotify_mode_start_time :: "real option"
  face_cam_delay :: real
  face_cam_shown :: bool
  force_top_counter :: nat

definition detector_new :: "spotify_controller \<Rightarrow> detector" where
  "detector_new c =
     \<lparr>spotify = c, is_holding = False, holding_start_time = None,
      holding_duration_threshold = 0.2, spotify_mode = False, spotify_mode_start_time = None,
      face_cam_delay = 1.0, face_cam_shown = False, force_top_counter = 0\<rparr>"

text \<open>
  What one iteration makes visible outside the detector: a call of \<^verbatim>\<open>spotify.play_juna()\<close>
  with the value it returned and the remote calls of the thread it started. Console
  messages and drawing are left out.
\<close>

datatype event = PlayJuna bool "call list"

text \<open>
  The state update of one iteration (\<^verbatim>\<open># Update holding state with debouncing\<close>), given
  \<^verbatim>\<open>holding_detected\<close> and \<^verbatim>\<open>current_time\<close>.
\<close>

definition update_holding :: "env \<Rightarrow> bool \<Rightarrow> real \<Rightarrow> detector \<Rightarrow> detector \<times> event list" where
  "update_holding e holding_detected current_time self =
     (if holding_detected then
        (case holding_start_time self of
           None \<Rightarrow> (self\<lparr>holding_start_time := Some current_time\<rparr>, [])
         | Some start \<Rightarrow>
             if current_time - start > holding_duration_threshold self then
               (if \<not> is_holding self then
                  (let self1 = self\<lparr>is_holding := True, spotify_mode := True,
                                     spotify_mode_start_time := Some current_time\<rparr>
                   in if is_spotify_available (spotify self1) then
                        (let (r, c, cs) = play_juna e (spotify self1)
                         in (self1\<lparr>spotify := c\<rparr>, [PlayJuna r cs]))
                      else (self1, []))
                else (self, []))
             else (self, []))
      else
        (let self1 = self\<lparr>holding_start_time := None\<rparr>
         in if is_holding self1 then (self1\<lparr>is_holding := False\<rparr>, [])
            else (self1, [])))"

text \<open>
  The display part of the iteration, as far as it changes the detector. The test
  \<^verbatim>\<open>if self.spotify_mode_start_time\<close> is truthiness: \<^verbatim>\<open>None\<close> and the time \<open>0\<close> both give
  an elapsed time of 0.
\<close>

definition update_display :: "real \<Rightarrow> detector \<Rightarrow> detector" where
  "update_display current_time self =
     (if spotify_mode self then
        (let time_in_spotify_mode =
               (case spotify_mode_start_time self of
                  None \<Rightarrow> 0
                | Some t0 \<Rightarrow> if t0 = 0 then 0 else current_time - t0)
         in if time_in_spotify_mode \<ge> face_cam_delay self then
              (let self1 = (if \<not> face_cam_shown self then self\<lparr>face_cam_shown := True\<rparr> else self)
               in self1\<lparr>force_top_counter := force_top_counter self1 + 1\<rparr>)
            else self)
      else self)"

text \<open>One frame as the loop sees it: the landmark result, the clock, and the answers of the outside.\<close>

record 'f frame =
  fr_hands :: "'f hand_landmarks list option"
  fr_time :: real
  fr_env :: env

definition run_iteration :: "'f frame \<Rightarrow> detector \<Rightarrow> detector \<times> event list" where
  "run_iteration f self =
     (let (holding_detected, num_hands) = run_holding_detected (fr_hands f);
          (self1, evs) = update_holding (fr_env f) holding_detected (fr_time f) self
      in (update_display (fr_time f) self1, evs))"

text \<open>The loop over the frames the camera delivers, until it delivers no more.\<close>

fun run :: "'f frame list \<Rightarrow> detector \<Rightarrow> detector \<times> event list" where
  "run [] self = (self, [])"
| "run (f # fs) self =
     (let (self1, evs1) = run_iteration f self;
          (self2, evs2) = run fs self1
      in (self2, evs1 @ evs2))"

text \<open>The number of iterations in which \<^verbatim>\<open>is_holding\<close> goes from \<^verbatim>\<open>False\<close> to \<^verbatim>\<open>True\<close>.\<close>

fun holding_entries :: "'f frame list \<Rightarrow> detector \<Rightarrow> nat" where
  "holding_entries [] self = 0"
| "holding_entries (f # fs) self =
     (let self1 = fst (run_iteration f self)
      in (if \<not> is_holding self \<and> is_holding self1 then 1 else 0) + holding_entries fs self1)"

text \<open>The signal of a frame, and frames for evaluation: some hand or none, at a time.\<close>

definition signal :: "'f frame \<Rightarrow> bool" where
  "signal f = fst (run_holding_detected (fr_hands f))"

definition env_ok :: env where
  "env_ok = \<lparr>current_playback_result = Inr None, start_playback_result = Inr (),
             pause_playback_result = Inr (), popen_result = Inr ()\<rparr>"

definition frame_at :: "bool \<Rightarrow> real \<Rightarrow> real option frame" where
  "frame_at b t =
     \<lparr>fr_hands = (if b then Some [hand_at 0.5 0.5] else None), fr_time = t, fr_env = env_ok\<rparr>"

definition controller_connected :: spotify_controller where
  "controller_connected = controller_new\<lparr>sp := Some Client, device_id := Some ''device''\<rparr>"

definition hand_index_up :: "real option hand_landmarks" where
  "hand_index_up =
     (hand_at 0.5 0.5)[4 := \<lparr>lm_x = Some 0.5, lm_y = Some 0.25\<rparr>,
                       8 := \<lparr>lm_x = Some 0.5, lm_y = Some 0.25\<rparr>]"

definition holding_state :: detector where
  "holding_state = (detector_new controller_connected)
     \<lparr>is_holding := True, holding_start_time := Some 1, spotify_mode := True,
      spotify_mode_start_time := Some 1.25\<rparr>"

subsection \<open>Notions of the specification about the state machine and the trigger\<close>

text \<open>
  What holds of the detector's timestamps in every state the loop reaches: while holding,
  the start of the pending period is still recorded and the Spotify mode is on; the Spotify
  mode is on exactly when its start time is recorded.
\<close>

definition state_inv :: "detector \<Rightarrow> bool" where
  "state_inv s =
     ((is_holding s \<longrightarrow> holding_start_time s \<noteq> None \<and> spotify_mode s)
      \<and> (spotify_mode s \<longleftrightarrow> spotify_mode_start_time s \<noteq> None))"

text \<open>The currently playing track equals the target track and playback is active.\<close>

definition already_playing :: "string \<Rightarrow> playback option \<Rightarrow> bool" where
  "already_playing target current =
     (map_option uri (Option.bind current pb_item) = Some target
      \<and> map_option pb_is_playing current = Some True)"

fun is_start_playback :: "call \<Rightarrow> bool" where
  "is_start_playback (StartPlayback d us) = True"
| "is_start_playback _ = False"

section \<open>Auxiliary facts\<close>

subsection \<open>Square roots against the thresholds, and the evaluation hands\<close>

lemma sqrt_less_half: "sqrt s < 1/2 \<longleftrightarrow> s < 1/4"
proof -
  have "sqrt (1/4) = 1/2" by (simp add: real_sqrt_divide)
  then show ?thesis by (metis real_sqrt_less_iff)
qed

lemma exact_root_less_half:
  "0 \<le> s \<Longrightarrow> exact_lt (exact_sqrt (Some s)) (Some (1/2)) \<longleftrightarrow> s < 1/4"
  using sqrt_less_half[of s] by (simp add: exact_lt_def exact_sqrt_def)

lemma length_hand_at: "length (hand_at a b) = 21"
  by (simp add: hand_at_def)

lemma all_numbers_replicate: "all_numbers (replicate n (Some a)) = Some (replicate n a)"
  by (induction n) simp_all

lemma exact_mean_replicate: "0 < n \<Longrightarrow> exact_mean (replicate n (Some a)) = Some a"
  by (simp add: exact_mean_def all_numbers_replicate sum_list_replicate)

lemma centroid_hand_at: "centroid exact_arith (hand_at a b) = (Some a, Some b)"
  by (simp add: centroid_def hand_at_def exact_arith_def exact_mean_replicate)

lemma hand_centers_loop_len: "length (hand_centers_loop A hs) = length hs"
  by (induction hs) (simp_all add: Let_def)

subsection \<open>Rounding to doubles\<close>

lemma pow2_powr: "pow2 k = 2 powr (of_int k)"
  by (simp add: pow2_def powr_int)

lemma pow2_pos: "0 < pow2 k"
  by (simp add: pow2_powr)

lemma pow2_add: "pow2 (a + b) = pow2 a * pow2 b"
  by (simp add: pow2_powr powr_add)

lemma pow2_mono: "a \<le> b \<Longrightarrow> pow2 a \<le> pow2 b"
  by (simp add: pow2_powr)

lemma floor_log2_binade:
  assumes "pow2 n \<le> \<bar>x\<bar>" "\<bar>x\<bar> < pow2 (n + 1)"
  shows "\<lfloor>log 2 \<bar>x\<bar>\<rfloor> = n"
proof -
  have "0 < \<bar>x\<bar>" using assms(1) pow2_pos[of n] by linarith
  then show ?thesis
    using assms floor_log_eq_powr_iff[of "\<bar>x\<bar>" 2 n] by (simp add: pow2_powr)
qed

lemma double_of_binade:
  assumes "pow2 n \<le> \<bar>x\<bar>" "\<bar>x\<bar> < pow2 (n + 1)" "- 1022 \<le> n"
    and "\<bar>of_int (round_even (x / pow2 (n - 52))) * pow2 (n - 52)\<bar> < pow2 1024"
  shows "double_of x = Some (of_int (round_even (x / pow2 (n - 52))) * pow2 (n - 52))"
proof -
  have nz: "x \<noteq> 0" using assms(1) pow2_pos[of n] by auto
  have e: "max (\<lfloor>log 2 \<bar>x\<bar>\<rfloor> - 52) (- 1074) = n - 52"
    using floor_log2_binade[OF assms(1,2)] assms(3) by simp
  show ?thesis
    unfolding double_of_def Let_def e using nz assms(4) by simp
qed

lemma round_even_int: "round_even (of_int j) = j"
  by (simp add: round_even_def)

lemma double_of_exact:
  assumes "m \<noteq> 0" "\<bar>m\<bar> < 2 ^ 53" "- 1074 \<le> k" "k \<le> 970"
  shows "double_of (of_int m * pow2 k) = Some (of_int m * pow2 k)"
proof -
  let ?x = "of_int m * pow2 k :: real"
  have nz: "?x \<noteq> 0" using assms(1) pow2_pos[of k] by simp
  have absx: "\<bar>?x\<bar> = of_int \<bar>m\<bar> * pow2 k"
    using pow2_pos[of k] by (simp add: abs_mult)
  have "of_int \<bar>m\<bar> < (2::real) ^ 53" using assms(2) by (metis of_int_less_numeral_power_cancel_iff)
  then have "of_int \<bar>m\<bar> * pow2 k < 2 ^ 53 * pow2 k"
    using pow2_pos[of k] by (intro mult_strict_right_mono)
  moreover have "pow2 (53 + k) = 2 ^ 53 * pow2 k"
    using pow2_add[of 53 k] by (simp add: pow2_def)
  ultimately have lt: "\<bar>?x\<bar> < pow2 (53 + k)"
    using absx by simp
  have "0 < \<bar>?x\<bar>" using nz by simp
  then have "log 2 \<bar>?x\<bar> < of_int (53 + k)"
    using lt by (simp add: pow2_powr log_less_iff)
  then have "\<lfloor>log 2 \<bar>?x\<bar>\<rfloor> < 53 + k" by linarith
  then have le: "max (\<lfloor>log 2 \<bar>?x\<bar>\<rfloor> - 52) (- 1074) \<le> k" using assms(3) by simp
  define e where "e = max (\<lfloor>log 2 \<bar>?x\<bar>\<rfloor> - 52) (- 1074)"
  have ek: "e \<le> k" using le by (simp add: e_def)
  have "pow2 k = pow2 (k - e) * pow2 e" using pow2_add[of "k - e" e] by simp
  moreover have "pow2 (k - e) = of_int (2 ^ nat (k - e))" using ek by (simp add: pow2_def)
  ultimately have q: "?x / pow2 e = of_int (m * 2 ^ nat (k - e))"
    using pow2_pos[of e] by simp
  have "of_int (m * 2 ^ nat (k - e)) * pow2 e = ?x / pow2 e * pow2 e"
    using q by simp
  also have "\<dots> = ?x" using pow2_pos[of e] by simp
  finally have r: "of_int (round_even (?x / pow2 e)) * pow2 e = ?x"
    unfolding q round_even_int .
  have "pow2 (53 + k) \<le> pow2 1024" using assms(4) by (intro pow2_mono) simp
  then have b: "\<bar>?x\<bar> < pow2 1024" using lt by linarith
  show ?thesis
    unfolding double_of_def Let_def e_def[symmetric] r using nz b by simp
qed

lemma lit_half: "double_of (1/2) = Some (1/2)"
  using double_of_exact[of 1 "-1"] by (simp add: pow2_def)

lemma lit_two: "double_of 2 = Some 2"
  using double_of_exact[of 1 1] by (simp add: pow2_def)

lemma lit_01: "double_of (1/10) = Some (7205759403792794 / 2 ^ 56)"
  using double_of_binade[of "-4" "1/10"] by (simp add: pow2_def round_even_def)

lemma lit_09: "double_of (9/10) = Some (8106479329266893 / 2 ^ 53)"
  using double_of_binade[of "-1" "9/10"] by (simp add: pow2_def round_even_def)

lemma lit_095: "double_of (19/20) = Some (8556839292003942 / 2 ^ 53)"
  using double_of_binade[of "-1" "19/20"] by (simp add: pow2_def round_even_def)

lemma lit_008: "double_of (2/25) = Some (5764607523034235 / 2 ^ 56)"
  using double_of_binade[of "-4" "2/25"] by (simp add: pow2_def round_even_def)

lemma lit_03: "double_of (3/10) = Some (5404319552844595 / 2 ^ 54)"
  using double_of_binade[of "-2" "3/10"] by (simp add: pow2_def round_even_def)

lemma double_of_quarter:
  assumes "0 \<le> m" "m < 2 ^ 53"
  shows "double_of (of_int m / 4) = Some (of_int m / 4)"
proof (cases "m = 0")
  case True
  then show ?thesis by (simp add: double_of_def)
next
  case False
  then show ?thesis
    using double_of_exact[of m "-2"] assms by (simp add: pow2_def)
qed

lemma foldl_quarters:
  assumes "0 \<le> j" "\<forall>m\<in>set ms. 0 \<le> m" "j + sum_list ms < 2 ^ 53"
  shows "foldl (double2 (+)) (Some (of_int j / 4)) (map (\<lambda>m. Some (of_int m / 4)) ms)
           = Some (of_int (j + sum_list ms) / 4)"
  using assms
proof (induction ms arbitrary: j)
  case Nil
  then show ?case by simp
next
  case (Cons m ms)
  have m0: "0 \<le> m" and ms0: "\<forall>m\<in>set ms. 0 \<le> m" using Cons.prems(2) by simp_all
  have s0: "0 \<le> sum_list ms" using ms0 by (simp add: sum_list_nonneg)
  have jm: "0 \<le> j + m" "j + m < 2 ^ 53" using Cons.prems m0 s0 by simp_all
  have step: "double2 (+) (Some (of_int j / 4)) (Some (of_int m / 4)) = Some (of_int (j + m) / 4)"
    using double_of_quarter[OF jm] by (simp add: double2_def add_divide_distrib)
  have "foldl (double2 (+)) (Some (of_int (j + m) / 4)) (map (\<lambda>m. Some (of_int m / 4)) ms)
          = Some (of_int (j + m + sum_list ms) / 4)"
    using Cons.IH[of "j + m"] jm(1) ms0 Cons.prems(3) by (simp add: add.assoc)
  then show ?case using step by (simp add: add.assoc)
qed

lemma double_mean_quarters:
  assumes "ms \<noteq> []" "\<forall>m\<in>set ms. 0 \<le> m" "sum_list ms < 2 ^ 53"
  shows "double_mean (map (\<lambda>m. Some (of_int m / 4)) ms)
           = double_div (Some (of_int (sum_list ms) / 4)) (double_of (real (length ms)))"
  using assms foldl_quarters[of 0 ms] by (simp add: double_mean_def)

lemma map_lm_quarter_hand:
  "map lm_x (quarter_hand ps) = map (\<lambda>m. Some (of_int m / 4)) (map fst ps)"
  "map lm_y (quarter_hand ps) = map (\<lambda>m. Some (of_int m / 4)) (map snd ps)"
  by (simp_all add: quarter_hand_def case_prod_unfold)

lemma round_even_between:
  assumes "of_int N - 1/2 < t" "t < of_int N + 1/2"
  shows "round_even t = N"
proof -
  have "\<lfloor>t\<rfloor> = N \<or> \<lfloor>t\<rfloor> = N - 1" using assms by linarith
  then show ?thesis
  proof
    assume "\<lfloor>t\<rfloor> = N"
    then show ?thesis using assms by (simp add: round_even_def)
  next
    assume "\<lfloor>t\<rfloor> = N - 1"
    then show ?thesis using assms by (simp add: round_even_def)
  qed
qed

lemma lit_21: "double_of 21 = Some 21"
  using double_of_exact[of 21 0] by (simp add: pow2_def)

lemma mean_left_x: "f_mean double_arith (map lm_x hand_left) = Some cx_left"
proof -
  have "double_of (11/42) = Some (4718056752483377 / 2 ^ 54)"
    using double_of_binade[of "-2" "11/42"] by (simp add: pow2_def round_even_def)
  then show ?thesis
    using double_mean_quarters[of "map fst (replicate 20 (1, 2) @ [(2, 2)])"]
    by (simp add: double_arith_def hand_left_def map_lm_quarter_hand sum_list_replicate
          lit_21 double_div_def cx_left_def)
qed

lemma mean_right_x: "f_mean double_arith (map lm_x hand_right) = Some cx_right"
proof -
  have "double_of (16/21) = Some (6862628003612184 / 2 ^ 53)"
    using double_of_binade[of "-1" "16/21"] by (simp add: pow2_def round_even_def)
  then show ?thesis
    using double_mean_quarters[of "map fst (replicate 20 (3, 2) @ [(4, 2)])"]
    by (simp add: double_arith_def hand_right_def map_lm_quarter_hand sum_list_replicate
          lit_21 double_div_def cx_right_def)
qed

lemma mean_left_y: "f_mean double_arith (map lm_y hand_left) = Some (1/2)"
  using double_mean_quarters[of "map snd (replicate 20 (1, 2) @ [(2, 2)])"]
  by (simp add: double_arith_def hand_left_def map_lm_quarter_hand sum_list_replicate
        lit_21 double_div_def lit_half)

lemma mean_right_y: "f_mean double_arith (map lm_y hand_right) = Some (1/2)"
  using double_mean_quarters[of "map snd (replicate 20 (3, 2) @ [(4, 2)])"]
  by (simp add: double_arith_def hand_right_def map_lm_quarter_hand sum_list_replicate
        lit_21 double_div_def lit_half)

lemma boundary_distance:
  "f_sqrt double_arith
     (f_add double_arith
        (f_sq double_arith (f_sub double_arith (Some cx_left) (Some cx_right)))
        (f_sq double_arith (f_sub double_arith (Some (1/2)) (Some (1/2)))))
   = Some below_half"
proof -
  define dx :: real where "dx = - 9007199254740991 / 2 ^ 54"
  define sx :: real where "sx = 9007199254740990 / 2 ^ 55"
  define dd :: real where "dd = 9007199254740991 / 2 ^ 54"
  have a: "double2 (-) (Some cx_left) (Some cx_right) = Some dx"
    using double_of_exact[of "- 9007199254740991" "- 54"]
    by (simp add: double2_def dx_def pow2_def cx_left_def cx_right_def)
  have b: "double_sq (Some dx) = Some sx"
    using double_of_binade[of "-3" "dx * dx"]
    by (simp add: double_sq_def dx_def sx_def pow2_def round_even_def)
  have c: "double2 (-) (Some (1/2)) (Some (1/2)) = Some 0"
    by (simp add: double2_def double_of_def)
  have d: "double_sq (Some 0) = Some 0"
    by (simp add: double_sq_def double_of_def)
  have e: "double2 (+) (Some sx) (Some 0) = Some sx"
    using double_of_exact[of 9007199254740990 "- 55"]
    by (simp add: double2_def sx_def pow2_def)
  have lo: "1/4 \<le> sqrt sx"
    by (rule real_le_rsqrt) (simp add: sx_def power2_eq_square)
  have "sx < 1/4" by (simp add: sx_def)
  then have hi: "sqrt sx < 1/2"
    using sqrt_less_half[of sx] by blast
  have t: "sqrt sx * 2 ^ 54 = sqrt (sx * 2 ^ 108)"
    by (simp add: real_sqrt_mult)
  have r1: "9007199254740991 - 1/2 < sqrt (sx * 2 ^ 108)"
    by (rule real_less_rsqrt) (simp add: sx_def power2_eq_square)
  have r2: "sqrt (sx * 2 ^ 108) < 9007199254740991 + 1/2"
    by (rule real_less_lsqrt) (simp_all add: sx_def power2_eq_square)
  have rnd: "round_even (sqrt sx * 2 ^ 54) = 9007199254740991"
    unfolding t using round_even_between[of 9007199254740991 "sqrt (sx * 2 ^ 108)"] r1 r2
    by simp
  have f: "double_sqrt (Some sx) = Some dd"
  proof -
    have nn: "\<not> sx < 0" by (simp add: sx_def)
    have "double_of (sqrt sx) = Some dd"
      using double_of_binade[of "-2" "sqrt sx"] lo hi rnd
      by (simp add: pow2_def dd_def)
    then show ?thesis using nn by (simp add: double_sqrt_def)
  qed
  show ?thesis
    using a b c d e f by (simp add: double_arith_def dd_def below_half_def)
qed

lemma boundary_midpoint:
  "in_center_region double_arith
     (midpoint2 double_arith (Some cx_left, Some (1/2)) (Some cx_right, Some (1/2)))"
proof -
  have a: "double2 (+) (Some cx_left) (Some cx_right) = Some (4610828189926936 / 2 ^ 52)"
    using double_of_binade[of 0 "4718056752483377 / 2 ^ 54 + 6862628003612184 / 2 ^ 53"]
    by (simp add: double2_def pow2_def round_even_def cx_left_def cx_right_def)
  have b: "double_div (Some (4610828189926936 / 2 ^ 52)) (Some 2)
             = Some (4610828189926936 / 2 ^ 53)"
    using double_of_exact[of 4610828189926936 "- 53"]
    by (simp add: double_div_def pow2_def)
  have c: "double2 (+) (Some (1/2)) (Some (1/2)) = Some 1"
    using double_of_exact[of 1 0] by (simp add: double2_def pow2_def)
  have d: "double_div (Some 1) (Some 2) = Some (1/2)"
    using lit_half by (simp add: double_div_def)
  show ?thesis
    unfolding in_center_region_def midpoint2_def
    using a b c d
    by (simp add: double_arith_def lit_two lit_01 lit_09 lit_095 exact_lt_def)
qed

lemma all_numbers_append:
  "all_numbers (us @ vs) =
     (case (all_numbers us, all_numbers vs) of
        (Some as, Some bs) \<Rightarrow> Some (as @ bs)
      | _ \<Rightarrow> None)"
  by (induction us) (auto split: option.splits)

lemma exact_centroids:
  "centroid exact_arith hand_left = (Some (11/42), Some (1/2))"
  "centroid exact_arith hand_right = (Some (16/21), Some (1/2))"
  by (simp_all add: centroid_def exact_arith_def exact_mean_def hand_left_def hand_right_def
        map_lm_quarter_hand all_numbers_append all_numbers_replicate sum_list_replicate)

lemma lit_slack: "double_of (2/25) = Some slack"
  using lit_008 by (simp add: slack_def)

lemma half_minus_slack: "double2 (-) (Some (1/2)) (Some slack) = Some knuckle_line"
  using double_of_binade[of "-2" "1/2 - slack"]
  by (simp add: double2_def slack_def knuckle_line_def pow2_def round_even_def)

subsection \<open>One iteration of the loop, by the state it starts in\<close>

lemma display_keeps:
  "is_holding (update_display t s) = is_holding s"
  "holding_start_time (update_display t s) = holding_start_time s"
  "holding_duration_threshold (update_display t s) = holding_duration_threshold s"
  "spotify (update_display t s) = spotify s"
  "spotify_mode (update_display t s) = spotify_mode s"
  "spotify_mode_start_time (update_display t s) = spotify_mode_start_time s"
  by (simp_all add: update_display_def Let_def)

lemma iter_fst:
  "fst (run_iteration f s) =
     update_display (fr_time f) (fst (update_holding (fr_env f) (signal f) (fr_time f) s))"
  by (simp add: run_iteration_def signal_def split: prod.splits)

lemma iter_snd:
  "snd (run_iteration f s) = snd (update_holding (fr_env f) (signal f) (fr_time f) s)"
  by (simp add: run_iteration_def signal_def split: prod.splits)

lemma uh_threshold:
  "holding_duration_threshold (fst (update_holding e b t s)) = holding_duration_threshold s"
  by (simp add: update_holding_def Let_def split: option.splits prod.splits)

lemma uh_false:
  "\<not> is_holding (fst (update_holding e False t s))"
  "holding_start_time (fst (update_holding e False t s)) = None"
  "snd (update_holding e False t s) = []"
  "spotify (fst (update_holding e False t s)) = spotify s"
  "spotify_mode_start_time (fst (update_holding e False t s)) = spotify_mode_start_time s"
  "spotify_mode (fst (update_holding e False t s)) = spotify_mode s"
  by (simp_all add: update_holding_def Let_def)

lemma uh_fresh:
  assumes "holding_start_time s = None"
  shows "is_holding (fst (update_holding e True t s)) = is_holding s"
    and "holding_start_time (fst (update_holding e True t s)) = Some t"
    and "snd (update_holding e True t s) = []"
    and "spotify (fst (update_holding e True t s)) = spotify s"
    and "spotify_mode_start_time (fst (update_holding e True t s)) = spotify_mode_start_time s"
    and "spotify_mode (fst (update_holding e True t s)) = spotify_mode s"
  using assms by (simp_all add: update_holding_def)

lemma uh_same:
  assumes "holding_start_time s = Some t0"
    "is_holding s \<or> \<not> t - t0 > holding_duration_threshold s"
  shows "update_holding e True t s = (s, [])"
  using assms by (auto simp add: update_holding_def)

lemma uh_enter:
  assumes "\<not> is_holding s" "holding_start_time s = Some t0"
    "t - t0 > holding_duration_threshold s"
  shows "is_holding (fst (update_holding e True t s))"
    and "holding_start_time (fst (update_holding e True t s)) = Some t0"
    and "length (snd (update_holding e True t s)) = (if is_spotify_available (spotify s) then 1 else 0)"
    and "spotify_mode_start_time (fst (update_holding e True t s)) = Some t"
    and "spotify_mode (fst (update_holding e True t s))"
  using assms by (simp_all add: update_holding_def Let_def split: prod.splits)

lemma iter_threshold:
  "holding_duration_threshold (fst (run_iteration f s)) = holding_duration_threshold s"
  by (simp add: iter_fst display_keeps uh_threshold)

lemma iter_false:
  assumes "\<not> signal f"
  shows "\<not> is_holding (fst (run_iteration f s))"
    and "holding_start_time (fst (run_iteration f s)) = None"
    and "snd (run_iteration f s) = []"
    and "spotify (fst (run_iteration f s)) = spotify s"
    and "spotify_mode_start_time (fst (run_iteration f s)) = spotify_mode_start_time s"
  using assms by (simp_all add: iter_fst iter_snd display_keeps uh_false)

lemma iter_fresh:
  assumes "signal f" "holding_start_time s = None"
  shows "is_holding (fst (run_iteration f s)) = is_holding s"
    and "holding_start_time (fst (run_iteration f s)) = Some (fr_time f)"
    and "snd (run_iteration f s) = []"
    and "spotify (fst (run_iteration f s)) = spotify s"
    and "spotify_mode_start_time (fst (run_iteration f s)) = spotify_mode_start_time s"
  using assms by (simp_all add: iter_fst iter_snd display_keeps uh_fresh)

lemma iter_pending:
  assumes "signal f" "\<not> is_holding s" "holding_start_time s = Some t0"
    "\<not> fr_time f - t0 > holding_duration_threshold s"
  shows "\<not> is_holding (fst (run_iteration f s))"
    and "holding_start_time (fst (run_iteration f s)) = Some t0"
    and "snd (run_iteration f s) = []"
    and "spotify (fst (run_iteration f s)) = spotify s"
    and "spotify_mode_start_time (fst (run_iteration f s)) = spotify_mode_start_time s"
  using assms by (simp_all add: iter_fst iter_snd display_keeps uh_same)

lemma iter_holding:
  assumes "signal f" "is_holding s" "holding_start_time s = Some t0"
  shows "is_holding (fst (run_iteration f s))"
    and "holding_start_time (fst (run_iteration f s)) = Some t0"
    and "snd (run_iteration f s) = []"
    and "spotify_mode_start_time (fst (run_iteration f s)) = spotify_mode_start_time s"
  using assms by (simp_all add: iter_fst iter_snd display_keeps uh_same)

lemma iter_enter:
  assumes "signal f" "\<not> is_holding s" "holding_start_time s = Some t0"
    "fr_time f - t0 > holding_duration_threshold s"
  shows "is_holding (fst (run_iteration f s))"
    and "holding_start_time (fst (run_iteration f s)) = Some t0"
    and "length (snd (run_iteration f s)) = (if is_spotify_available (spotify s) then 1 else 0)"
    and "spotify_mode_start_time (fst (run_iteration f s)) = Some (fr_time f)"
  using assms by (simp_all add: iter_fst iter_snd display_keeps uh_enter)

subsection \<open>The loop over a list of frames\<close>

lemma run_Cons_fst: "fst (run (f # fs) s) = fst (run fs (fst (run_iteration f s)))"
  by (simp add: Let_def split: prod.splits)

lemma run_Cons_snd:
  "snd (run (f # fs) s) = snd (run_iteration f s) @ snd (run fs (fst (run_iteration f s)))"
  by (simp add: Let_def split: prod.splits)

lemmas eval_defs = run_iteration_def update_holding_def update_display_def
  run_holding_detected_def frame_at_def detector_new_def controller_connected_def
  controller_new_def play_juna_def play_juna_async_def play_juna_async_try_def
  show_spotify_window_def env_ok_def is_spotify_available_def hand_at_def signal_def Let_def

lemma signal_frame_at: "signal (frame_at b t) = b"
  by (simp add: signal_def frame_at_def run_holding_detected_def hand_at_def)

lemma fr_time_frame_at: "fr_time (frame_at b t) = t"
  by (simp add: frame_at_def)

declare run.simps(2) [simp del]

lemma run_holding:
  assumes "is_holding s" "holding_start_time s = Some t0" "\<forall>f\<in>set fs. signal f"
  shows "is_holding (fst (run fs s)) \<and> snd (run fs s) = [] \<and> holding_entries fs s = 0
         \<and> spotify_mode_start_time (fst (run fs s)) = spotify_mode_start_time s"
  using assms
proof (induction fs arbitrary: s)
  case Nil
  then show ?case by simp
next
  case (Cons f fs)
  have sf: "signal f" using Cons.prems by simp
  note h = iter_holding[OF sf Cons.prems(1) Cons.prems(2)]
  have "is_holding (fst (run fs (fst (run_iteration f s))))
     \<and> snd (run fs (fst (run_iteration f s))) = []
     \<and> holding_entries fs (fst (run_iteration f s)) = 0
     \<and> spotify_mode_start_time (fst (run fs (fst (run_iteration f s))))
         = spotify_mode_start_time (fst (run_iteration f s))"
    using Cons.IH[OF h(1) h(2)] Cons.prems(3) by simp
  then show ?case using h Cons.prems(1) by (simp add: run_Cons_fst run_Cons_snd)
qed

text \<open>
  A run of frames with the signal on, started while pending since \<open>t0\<close>: the detector
  ends up holding exactly if some frame lies more than the threshold after \<open>t0\<close>; the first
  such frame is the one that enters, stamps the Spotify mode and triggers.
\<close>

lemma run_pending:
  assumes "\<not> is_holding s" "holding_start_time s = Some t0" "\<forall>f\<in>set fs. signal f"
  shows "is_holding (fst (run fs s)) = (\<exists>f\<in>set fs. fr_time f - t0 > holding_duration_threshold s)
       \<and> holding_entries fs s
           = (if \<exists>f\<in>set fs. fr_time f - t0 > holding_duration_threshold s then 1 else 0)
       \<and> length (snd (run fs s)) =
           (if (\<exists>f\<in>set fs. fr_time f - t0 > holding_duration_threshold s)
               \<and> is_spotify_available (spotify s)
            then 1 else 0)
       \<and> spotify_mode_start_time (fst (run fs s)) =
           (case find (\<lambda>f. fr_time f - t0 > holding_duration_threshold s) fs of
              None \<Rightarrow> spotify_mode_start_time s | Some fk \<Rightarrow> Some (fr_time fk))"
  using assms
proof (induction fs arbitrary: s)
  case Nil
  then show ?case by simp
next
  case (Cons f fs)
  have sf: "signal f" and sfs: "\<forall>f\<in>set fs. signal f" using Cons.prems by simp_all
  show ?case
  proof (cases "fr_time f - t0 > holding_duration_threshold s")
    case True
    note e = iter_enter[OF sf Cons.prems(1) Cons.prems(2) True]
    from run_holding[OF e(1) e(2) sfs] e Cons.prems(1) True
    show ?thesis by (simp add: run_Cons_fst run_Cons_snd)
  next
    case False
    note p = iter_pending[OF sf Cons.prems(1) Cons.prems(2) False]
    from Cons.IH[OF p(1) p(2) sfs] p Cons.prems(1) False
    show ?thesis by (simp add: run_Cons_fst run_Cons_snd iter_threshold split: option.splits)
  qed
qed

subsection \<open>The invariant of the timestamps\<close>

lemma uh_inv: "state_inv s \<Longrightarrow> state_inv (fst (update_holding e b t s))"
  by (auto simp add: state_inv_def update_holding_def Let_def split: option.splits prod.splits)

lemma display_inv: "state_inv (update_display t s) = state_inv s"
  by (simp add: state_inv_def display_keeps)

lemma iter_inv: "state_inv s \<Longrightarrow> state_inv (fst (run_iteration f s))"
  by (simp add: iter_fst display_inv uh_inv)

lemma run_inv: "state_inv s \<Longrightarrow> state_inv (fst (run fs s))"
  by (induction fs arbitrary: s) (simp_all add: run_Cons_fst iter_inv)

lemma new_inv: "state_inv (detector_new c)"
  by (simp add: state_inv_def detector_new_def)

lemma uh_start_iff: "holding_start_time (fst (update_holding e b t s)) \<noteq> None \<longleftrightarrow> b"
  by (auto simp add: update_holding_def Let_def split: option.splits prod.splits)

lemma uh_mode_start:
  "spotify_mode_start_time (fst (update_holding e b t s)) =
     (if \<not> is_holding s \<and> is_holding (fst (update_holding e b t s)) then Some t
      else spotify_mode_start_time s)"
  by (auto simp add: update_holding_def Let_def split: option.splits prod.splits)

section \<open>The classifier claims\<close>

text \<open>
  C1, as the specification states it: the per-frame signal is false for zero hands, the
  single-hand rule for one hand, the two-hand rule for two or more. The loop does not do
  that: for a single hand whose wrist is in the corner of the frame the single-hand rule,
  run in double arithmetic, says no, and the signal is on.
\<close>

theorem C1_counterexample:
  "fst (run_holding_detected (Some [hand_at 0 0]))
   \<and> detect_single_hand_holding double_arith (hand_at 0 0) [720, 1280, 3] = Inr False"
  by (simp add: run_holding_detected_def detect_single_hand_holding_def hand_at_def
        double_arith_def exact_lt_def lit_01)

text \<open>
  C1, amended: the per-frame signal fed to the debounce state machine is false when no hand
  is detected and true as soon as at least one hand is; it is on exactly when the number of
  hands, which is the length of the landmark list, is positive. Neither geometric rule is
  consulted.
\<close>

theorem C1_any_hand_is_holding:
  "fst (run_holding_detected r) = (0 < snd (run_holding_detected r))
   \<and> snd (run_holding_detected r) = (case r of None \<Rightarrow> 0 | Some hs \<Rightarrow> length hs)"
  by (simp add: run_holding_detected_def split: option.splits)

text \<open>
  C2, as the specification states it: the single-hand rule needs the index and the middle
  fingertip both at or below their knuckle minus the slack. In \<open>hand_index_up\<close> the index
  fingertip (y = 0.25) is well above its knuckle minus the slack (0.5 - 0.08) and only the
  middle finger is curled; the rule, run in double arithmetic, says yes.
\<close>

theorem C2_counterexample:
  "detect_single_hand_holding double_arith hand_index_up [720, 1280, 3] = Inr True
   \<and> above_knuckle double_arith (hand_index_up ! 8) (hand_index_up ! 5)
   \<and> below_knuckle double_arith (hand_index_up ! 12) (hand_index_up ! 9)"
proof -
  have z: "double2 (-) (Some (1/2)) (Some (1/2)) = Some 0"
      "double2 (-) (Some (1/4)) (Some (1/4)) = Some 0"
      "double_sq (Some 0) = Some 0"
      "double2 (+) (Some 0) (Some 0) = Some 0"
      "double_sqrt (Some 0) = Some 0"
    by (simp_all add: double2_def double_sq_def double_sqrt_def double_of_def)
  show ?thesis
    using z half_minus_slack
    by (simp add: detect_single_hand_holding_def hand_index_up_def hand_at_def Let_def
        above_knuckle_def below_knuckle_def double_arith_def exact_lt_def
        lit_01 lit_09 lit_095 lit_03 lit_slack knuckle_line_def)
qed

text \<open>
  C2, amended: for a hand of 21 landmarks, and in every arithmetic, so in the doubles of
  the source, the single-hand rule answers yes exactly when the index fingertip or the
  middle fingertip (one of them is enough) lies below its knuckle minus the slack of 0.08
  (its y is larger than the computed difference), the computed distance of the thumb tip
  from the index tip is less than 0.3, and the wrist lies in the center rectangle.
\<close>

theorem C2_single_hand_rule:
  assumes "length h = 21"
  shows "detect_single_hand_holding A h shape =
     Inr ((below_knuckle A (h ! 8) (h ! 5) \<or> below_knuckle A (h ! 12) (h ! 9))
          \<and> f_lt A (euclid A (pt (h ! 4)) (pt (h ! 8))) (f_lit A 0.3)
          \<and> in_center_region A (pt (h ! 0)))"
  using assms
  by (auto simp add: detect_single_hand_holding_def Let_def euclid_def pt_def
        in_center_region_def below_knuckle_def)

text \<open>
  C2, amended, at \<open>hand_index_up\<close> in double arithmetic: the middle finger alone is curled.
\<close>

theorem C2_single_hand_rule_witness:
  "length hand_index_up = 21
   \<and> detect_single_hand_holding double_arith hand_index_up [720, 1280, 3] = Inr True"
proof -
  have z: "double2 (-) (Some (1/2)) (Some (1/2)) = Some 0"
      "double2 (-) (Some (1/4)) (Some (1/4)) = Some 0"
      "double_sq (Some 0) = Some 0"
      "double2 (+) (Some 0) (Some 0) = Some 0"
      "double_sqrt (Some 0) = Some 0"
    by (simp_all add: double2_def double_sq_def double_sqrt_def double_of_def)
  show ?thesis
    using C2_single_hand_rule[of hand_index_up double_arith "[720, 1280, 3]"] z half_minus_slack
    by (simp add: hand_index_up_def hand_at_def euclid_def pt_def in_center_region_def
          below_knuckle_def double_arith_def exact_lt_def
          lit_01 lit_09 lit_095 lit_03 lit_slack knuckle_line_def)
qed

text \<open>
  C6, as the specification states it: for every pair of centroids at distance 0.5 or more
  the two-hand rule answers no. The centroids of \<open>hand_left\<close> and \<open>hand_right\<close>, the means
  of their 21 points, are exactly 1/2 apart. In double arithmetic the means 5.5/21 and
  16/21 are rounded, their distance is computed as the largest double below 1/2, the
  midpoint lies in the rectangle, and the rule answers yes.
\<close>

theorem C6_counterexample:
  "detect_holding_gesture double_arith [hand_left, hand_right] [720, 1280, 3] = Inr True
   \<and> euclid exact_arith (centroid exact_arith hand_left) (centroid exact_arith hand_right)
       = Some (1/2)"
proof -
  have lt: "f_lt double_arith (Some below_half) (f_lit double_arith 0.5)"
    by (simp add: double_arith_def lit_half exact_lt_def below_half_def)
  have mid: "in_center_region double_arith
     (midpoint2 double_arith (Some cx_left, Some (1/2)) (Some cx_right, Some (1/2)))"
    by (rule boundary_midpoint)
  have code: "detect_holding_gesture double_arith [hand_left, hand_right] [720, 1280, 3] = Inr True"
    unfolding detect_holding_gesture_def Let_def
    using lt mid
    by (simp add: Let_def mean_left_x mean_left_y mean_right_x mean_right_y boundary_distance
          in_center_region_def midpoint2_def)
  have "sqrt (1/4) = 1/2" by (simp add: real_sqrt_divide)
  then have exact:
    "euclid exact_arith (centroid exact_arith hand_left) (centroid exact_arith hand_right)
       = Some (1/2)"
    unfolding exact_centroids
    by (simp add: euclid_def exact_arith_def exact2_def exact_sqrt_def)
  from code exact show ?thesis by simp
qed

text \<open>
  C6, amended: with fewer than two hands the two-hand rule answers no. With two or more
  hands (and a frame shape that has its height and width) it answers yes exactly when the
  distance of the centroids of the first two hands, as the arithmetic computes it from the
  computed means, is less than 0.5 and their computed midpoint lies in the center
  rectangle; further hands play no part. In particular it answers no whenever the computed
  distance is not less than 0.5, wherever the hands are. This holds in every arithmetic,
  so in the doubles of the source.
\<close>

theorem C6_two_hand_rule:
  "(length hs < 2 \<longrightarrow> detect_holding_gesture A hs shape = Inr False)
   \<and> (2 \<le> length shape \<longrightarrow>
        detect_holding_gesture A (h0 # h1 # rest) shape =
          Inr (f_lt A (euclid A (centroid A h0) (centroid A h1)) (f_lit A 0.5)
               \<and> in_center_region A (midpoint2 A (centroid A h0) (centroid A h1)))
        \<and> (\<not> f_lt A (euclid A (centroid A h0) (centroid A h1)) (f_lit A 0.5) \<longrightarrow>
             detect_holding_gesture A (h0 # h1 # rest) shape = Inr False))"
proof (intro conjI impI)
  assume "length hs < 2"
  then show "detect_holding_gesture A hs shape = Inr False"
    by (simp add: detect_holding_gesture_def)
next
  assume a: "2 \<le> length shape"
  then have sh: "length (take 2 shape) = 2" by simp
  show r: "detect_holding_gesture A (h0 # h1 # rest) shape =
          Inr (f_lt A (euclid A (centroid A h0) (centroid A h1)) (f_lit A 0.5)
               \<and> in_center_region A (midpoint2 A (centroid A h0) (centroid A h1)))"
    unfolding detect_holding_gesture_def Let_def
    using sh
    by (simp add: Let_def hand_centers_loop_len euclid_def in_center_region_def midpoint2_def
          centroid_def del: length_take)
  assume "\<not> f_lt A (euclid A (centroid A h0) (centroid A h1)) (f_lit A 0.5)"
  then show "detect_holding_gesture A (h0 # h1 # rest) shape = Inr False"
    using r by simp
qed

text \<open>
  C6, amended, in the arithmetic without rounding: at one hand, at two hands 0.2 apart
  around the center, and at two hands 0.6 apart.
\<close>

theorem C6_two_hand_rule_witness:
  "detect_holding_gesture exact_arith [hand_at 0.4 0.5] [720, 1280, 3] = Inr False
   \<and> detect_holding_gesture exact_arith [hand_at 0.4 0.5, hand_at 0.6 0.5] [720, 1280, 3]
       = Inr True
   \<and> detect_holding_gesture exact_arith [hand_at 0.2 0.5, hand_at 0.8 0.5] [720, 1280, 3]
       = Inr False"
proof -
  have near: "f_lt exact_arith (euclid exact_arith (Some 0.4, Some 0.5) (Some 0.6, Some 0.5))
                (f_lit exact_arith 0.5)"
    using exact_root_less_half[of "(0.4 - 0.6) * (0.4 - 0.6) + (0.5 - 0.5) * (0.5 - 0.5)"]
    by (simp add: euclid_def exact_arith_def exact2_def)
  have far: "\<not> f_lt exact_arith (euclid exact_arith (Some 0.2, Some 0.5) (Some 0.8, Some 0.5))
                (f_lit exact_arith 0.5)"
    using exact_root_less_half[of "(0.2 - 0.8) * (0.2 - 0.8) + (0.5 - 0.5) * (0.5 - 0.5)"]
    by (simp add: euclid_def exact_arith_def exact2_def)
  have mid: "in_center_region exact_arith
               (midpoint2 exact_arith (Some 0.4, Some 0.5) (Some 0.6, Some 0.5))"
    by (simp add: in_center_region_def midpoint2_def exact_arith_def exact2_def exact_div_def
          exact_lt_def)
  show ?thesis
    using C6_two_hand_rule[of "[hand_at 0.4 0.5]" exact_arith "[720, 1280, 3]"]
          C6_two_hand_rule[of _ exact_arith "[720, 1280, 3]" "hand_at 0.4 0.5" "hand_at 0.6 0.5" "[]"]
          C6_two_hand_rule[of _ exact_arith "[720, 1280, 3]" "hand_at 0.2 0.5" "hand_at 0.8 0.5" "[]"]
          near far mid
    by (simp add: centroid_hand_at)
qed

text \<open>
  C10: the answer of the two-hand rule does not depend on the frame dimensions. For fewer
  than two hands the shape is not even read; otherwise any two shapes that carry a height
  and a width give the same answer, in every arithmetic.
\<close>

theorem C10_shape_irrelevant:
  "length hs < 2 \<or> (2 \<le> length s1 \<and> 2 \<le> length s2) \<Longrightarrow>
     detect_holding_gesture A hs s1 = detect_holding_gesture A hs s2"
  by (auto simp add: detect_holding_gesture_def)

text \<open>
  C10 at two hands in double arithmetic, for a 1280 x 720 colour frame and a 640 x 480
  grey frame.
\<close>

theorem C10_shape_irrelevant_witness:
  "detect_holding_gesture double_arith [hand_left, hand_right] [720, 1280, 3]
     = detect_holding_gesture double_arith [hand_left, hand_right] [480, 640]"
  using C10_shape_irrelevant[of "[hand_left, hand_right]" "[720, 1280, 3]" "[480, 640]"
          double_arith]
  by simp

section \<open>The state machine claims\<close>

text \<open>
  C3, as the specification states it: the time of entering the Spotify mode is cleared on
  the way back to not holding. It is not: after the signal was on at 0 and at 0.3 (which
  enters holding) and off at 0.5, the detector no longer holds and the time 0.3 is still
  recorded.
\<close>

theorem C3_counterexample:
  "\<not> is_holding (fst (run [frame_at True 0, frame_at True 0.3, frame_at False 0.5]
                        (detector_new controller_connected)))
   \<and> spotify_mode_start_time (fst (run [frame_at True 0, frame_at True 0.3, frame_at False 0.5]
                        (detector_new controller_connected))) = Some 0.3"
  by (simp add: run.simps eval_defs)

text \<open>
  C3, amended: in every state the loop reaches from a fresh detector, holding implies that
  \<^verbatim>\<open>holding_start_time\<close> is set and the Spotify mode is on, and the Spotify mode is on
  exactly when \<^verbatim>\<open>spotify_mode_start_time\<close> is set. After every per-frame update,
  \<^verbatim>\<open>holding_start_time\<close> is set exactly if the signal of that frame was on (pending or
  holding), and \<^verbatim>\<open>spotify_mode_start_time\<close> is the time of the frame if the update entered
  holding and is unchanged otherwise; it is never cleared.
\<close>

theorem C3_timestamps:
  "state_inv (fst (run fs (detector_new c)))
   \<and> (holding_start_time (fst (run_iteration f s)) \<noteq> None \<longleftrightarrow> signal f)
   \<and> spotify_mode_start_time (fst (run_iteration f s)) =
       (if \<not> is_holding s \<and> is_holding (fst (run_iteration f s)) then Some (fr_time f)
        else spotify_mode_start_time s)"
  using uh_start_iff[of "fr_env f" "signal f" "fr_time f" s]
        uh_mode_start[of "fr_env f" "signal f" "fr_time f" s]
  by (simp add: run_inv new_inv iter_fst display_keeps)

text \<open>C3, amended, at a run that holds: both timestamps are set there.\<close>

theorem C3_timestamps_witness:
  "is_holding (fst (run [frame_at True 0, frame_at True 0.3] (detector_new controller_connected)))
   \<and> holding_start_time
        (fst (run [frame_at True 0, frame_at True 0.3] (detector_new controller_connected))) \<noteq> None
   \<and> spotify_mode_start_time
        (fst (run [frame_at True 0, frame_at True 0.3] (detector_new controller_connected))) \<noteq> None"
proof -
  have h: "is_holding
      (fst (run [frame_at True 0, frame_at True 0.3] (detector_new controller_connected)))"
    by (simp add: run.simps eval_defs)
  show ?thesis
    using h C3_timestamps[of "[frame_at True 0, frame_at True 0.3]" controller_connected
                  "frame_at False 0.5" "detector_new controller_connected"]
    unfolding state_inv_def by blast
qed

text \<open>
  C4, as the specification states it: the trigger \<^verbatim>\<open>play_juna\<close> is invoked exactly once on
  the edge into holding. With a controller that has no client (no credentials), the
  detector enters holding and \<^verbatim>\<open>play_juna\<close> is not invoked at all.
\<close>

theorem C4_counterexample:
  "holding_entries [frame_at True 0, frame_at True 0.3] (detector_new controller_new) = 1
   \<and> snd (run [frame_at True 0, frame_at True 0.3] (detector_new controller_new)) = []"
  by (simp add: run.simps eval_defs)

text \<open>
  C4, amended: let the detector be not holding with no pending start, let the signal be on
  in every frame of \<open>f0 # fs\<close>, and let some frame of \<open>fs\<close> lie more than the threshold
  after \<open>f0\<close>. Then \<^verbatim>\<open>is_holding\<close> goes from false to true exactly once, the detector holds
  at the end, \<^verbatim>\<open>spotify_mode_start_time\<close> is the time of the first frame that lies more than
  the threshold after \<open>f0\<close>, and \<^verbatim>\<open>play_juna\<close> is invoked exactly once if the controller is
  available (client and device) and not at all otherwise; no invocation happens in the
  frames before that first frame.
\<close>

theorem C4_confirm_once:
  assumes "\<not> is_holding s" and "holding_start_time s = None"
    and "\<forall>f\<in>set (f0 # fs). signal f"
    and "\<exists>f\<in>set fs. fr_time f - fr_time f0 > holding_duration_threshold s"
  shows "holding_entries (f0 # fs) s = 1
     \<and> is_holding (fst (run (f0 # fs) s))
     \<and> spotify_mode_start_time (fst (run (f0 # fs) s)) =
         map_option fr_time
           (find (\<lambda>f. fr_time f - fr_time f0 > holding_duration_threshold s) fs)
     \<and> length (snd (run (f0 # fs) s)) = (if is_spotify_available (spotify s) then 1 else 0)
     \<and> snd (run (f0 # takeWhile
                  (\<lambda>f. \<not> fr_time f - fr_time f0 > holding_duration_threshold s) fs) s) = []"
proof -
  let ?s1 = "fst (run_iteration f0 s)"
  let ?P = "\<lambda>f. fr_time f - fr_time f0 > holding_duration_threshold s"
  have s0: "signal f0" and sfs: "\<forall>f\<in>set fs. signal f" using assms(3) by simp_all
  note fr = iter_fresh[OF s0 assms(2)]
  have nh: "\<not> is_holding ?s1" using fr(1) assms(1) by simp
  have thr: "holding_duration_threshold ?s1 = holding_duration_threshold s"
    by (rule iter_threshold)
  note p = run_pending[OF nh fr(2) sfs, unfolded thr fr(4)]
  have tw: "\<forall>f\<in>set (takeWhile (\<lambda>f. \<not> ?P f) fs). signal f"
    using sfs by (meson set_takeWhileD)
  have none: "\<not> (\<exists>f\<in>set (takeWhile (\<lambda>f. \<not> ?P f) fs). ?P f)"
    by (auto dest: set_takeWhileD)
  note q = run_pending[OF nh fr(2) tw, unfolded thr fr(4)]
  obtain fk where fk: "find ?P fs = Some fk"
    using assms(4) by (cases "find ?P fs") (auto simp add: find_None_iff)
  have e1: "holding_entries (f0 # fs) s = 1"
    using p assms(4) nh assms(1) by (simp add: Let_def)
  have e2: "is_holding (fst (run (f0 # fs) s))"
    using p assms(4) by (simp add: run_Cons_fst)
  have e3: "spotify_mode_start_time (fst (run (f0 # fs) s)) = map_option fr_time (find ?P fs)"
    using p fk by (simp add: run_Cons_fst)
  have e4: "length (snd (run (f0 # fs) s)) = (if is_spotify_available (spotify s) then 1 else 0)"
    using p assms(4) fr(3) by (simp add: run_Cons_snd)
  have e5: "snd (run (f0 # takeWhile (\<lambda>f. \<not> ?P f) fs) s) = []"
    using q none fr(3) by (simp add: run_Cons_snd)
  from e1 e2 e3 e4 e5 show ?thesis by blast
qed

text \<open>
  C4, amended, at a connected controller and the signal on at 0, 0.1, 0.25 and 0.3: one
  entry, one trigger, stamped 0.25, none in the frames at 0 and 0.1.
\<close>

theorem C4_confirm_once_witness:
  "holding_entries [frame_at True 0, frame_at True 0.1, frame_at True 0.25, frame_at True 0.3]
      (detector_new controller_connected) = 1
   \<and> length (snd (run [frame_at True 0, frame_at True 0.1, frame_at True 0.25, frame_at True 0.3]
      (detector_new controller_connected))) = 1
   \<and> spotify_mode_start_time
       (fst (run [frame_at True 0, frame_at True 0.1, frame_at True 0.25, frame_at True 0.3]
          (detector_new controller_connected))) = Some 0.25
   \<and> snd (run [frame_at True 0, frame_at True 0.1] (detector_new controller_connected)) = []"
proof -
  have a: "\<not> is_holding (detector_new controller_connected)"
      "holding_start_time (detector_new controller_connected) = None"
      "holding_duration_threshold (detector_new controller_connected) = 0.2"
      "is_spotify_available (spotify (detector_new controller_connected))"
    by (simp_all add: detector_new_def is_spotify_available_def controller_connected_def
          controller_new_def)
  show ?thesis
    using C4_confirm_once[of "detector_new controller_connected" "frame_at True 0"
              "[frame_at True 0.1, frame_at True 0.25, frame_at True 0.3]"]
    by (simp add: a signal_frame_at fr_time_frame_at del: holding_entries.simps)
qed

text \<open>
  C5: a frame with the signal off resets \<^verbatim>\<open>holding_start_time\<close> to \<^verbatim>\<open>None\<close>, whatever had
  been accumulated. When frames \<open>f0 # fs\<close> with the signal on follow it, the detector holds
  at their end exactly if some frame of \<open>fs\<close> lies more than the threshold after \<open>f0\<close>, the
  first frame with the signal on again: the time before the off frame does not count.
\<close>

theorem C5_reset_on_false:
  assumes "\<not> signal g" and "\<forall>f\<in>set (f0 # fs). signal f"
  shows "holding_start_time (fst (run_iteration g s)) = None
     \<and> (is_holding (fst (run (g # f0 # fs) s))
          \<longleftrightarrow> (\<exists>f\<in>set fs. fr_time f - fr_time f0 > holding_duration_threshold s))"
proof -
  let ?s1 = "fst (run_iteration g s)"
  let ?s2 = "fst (run_iteration f0 ?s1)"
  have s0: "signal f0" and sfs: "\<forall>f\<in>set fs. signal f" using assms(2) by simp_all
  note fl = iter_false[OF assms(1), of s]
  note fr = iter_fresh[OF s0 fl(2)]
  have nh: "\<not> is_holding ?s2" using fr(1) fl(1) by simp
  have thr: "holding_duration_threshold ?s2 = holding_duration_threshold s"
    by (simp add: iter_threshold)
  note p = run_pending[OF nh fr(2) sfs, unfolded thr]
  show ?thesis using p fl(2) by (simp add: run_Cons_fst)
qed

text \<open>
  C5 at a detector pending since 0: off at 0.1, on at 0.15 and 0.3 does not confirm,
  although 0.3 is more than 0.2 after 0; one more frame at 0.4 does.
\<close>

theorem C5_reset_on_false_witness:
  "\<not> is_holding (fst (run [frame_at False 0.1, frame_at True 0.15, frame_at True 0.3]
       ((detector_new controller_connected)\<lparr>holding_start_time := Some 0\<rparr>)))
   \<and> is_holding
       (fst (run [frame_at False 0.1, frame_at True 0.15, frame_at True 0.3, frame_at True 0.4]
          ((detector_new controller_connected)\<lparr>holding_start_time := Some 0\<rparr>)))"
  using C5_reset_on_false[of "frame_at False 0.1" "frame_at True 0.15" "[frame_at True 0.3]"
           "(detector_new controller_connected)\<lparr>holding_start_time := Some 0\<rparr>"]
        C5_reset_on_false[of "frame_at False 0.1" "frame_at True 0.15"
           "[frame_at True 0.3, frame_at True 0.4]"
           "(detector_new controller_connected)\<lparr>holding_start_time := Some 0\<rparr>"]
  by (simp add: signal_frame_at fr_time_frame_at detector_new_def)

text \<open>
  C8: when the signal goes off while holding, the update clears \<^verbatim>\<open>holding_start_time\<close>,
  resets \<^verbatim>\<open>is_holding\<close> and changes nothing else of the detector, the controller included;
  it invokes nothing, so no call to stop or pause playback leaves the process, in the
  update and in the whole iteration.
\<close>

theorem C8_release_keeps_playing:
  assumes "is_holding s"
  shows "update_holding e False t s
           = (s\<lparr>holding_start_time := None, is_holding := False\<rparr>, [])
     \<and> (\<not> signal f \<longrightarrow>
          snd (run_iteration f s) = [] \<and> spotify (fst (run_iteration f s)) = spotify s)"
  using assms by (simp add: update_holding_def iter_false)

text \<open>C8 at a detector holding since 1.25, with the signal going off at 5.\<close>

theorem C8_release_keeps_playing_witness:
  "update_holding env_ok False 5 holding_state
     = (holding_state\<lparr>holding_start_time := None, is_holding := False\<rparr>, [])
   \<and> snd (run_iteration (frame_at False 5) holding_state) = []
   \<and> spotify (fst (run_iteration (frame_at False 5) holding_state)) = controller_connected"
  using C8_release_keeps_playing[of holding_state env_ok 5 "frame_at False 5"]
  by (simp add: holding_state_def signal_frame_at detector_new_def)

section \<open>The playback claims\<close>

text \<open>
  C7, as the specification states it: unless the target track is already playing, the
  attempt issues exactly one start-playback command. When the status query itself raises,
  the exception is caught and no start-playback command is issued.
\<close>

theorem C7_counterexample:
  "filter is_start_playback
     (snd (snd (play_juna_async (env_ok\<lparr>current_playback_result := Inl RemoteError\<rparr>)
                  controller_connected))) = []"
  by (simp add: play_juna_async_def play_juna_async_try_def controller_connected_def
        controller_new_def env_ok_def)

text \<open>
  C7, amended: every playback attempt of an initialized controller first queries the
  current playback status. When the query returns: if the currently playing track equals
  the target track and playback is active, the attempt is a no-op (no further call, the
  controller unchanged); otherwise exactly one start-playback command is issued, for the
  target track on the configured device. When the query raises, whatever the exception,
  it is caught: the attempt yields \<^verbatim>\<open>False\<close>, leaves the controller unchanged and
  makes no call after the query, so no start-playback command is issued.
\<close>

theorem C7_query_then_start:
  assumes "sp self \<noteq> None"
  shows "take 1 (snd (snd (play_juna_async e self))) = [CurrentPlayback]
     \<and> (case current_playback_result e of
           Inl ex \<Rightarrow> play_juna_async e self = (False, self, [CurrentPlayback])
         | Inr current \<Rightarrow>
             if already_playing (target_track_uri self) current
             then play_juna_async e self = (True, self, [CurrentPlayback])
             else filter is_start_playback (snd (snd (play_juna_async e self)))
                    = [StartPlayback (device_id self) [target_track_uri self]])"
  using assms
  by (auto simp add: play_juna_async_def play_juna_async_try_def already_playing_def
        show_spotify_window_def Let_def
      split: option.splits sum.splits prod.splits)

text \<open>
  C7, amended, with the target track playing, with nothing playing, and with a query that
  raises.
\<close>

theorem C7_query_then_start_witness:
  "play_juna_async
      (env_ok\<lparr>current_playback_result :=
          Inr (Some \<lparr>pb_item = Some \<lparr>uri = ''spotify:track:2mWfVxEo4xZYDaz0v7hYrN''\<rparr>,
                     pb_is_playing = True\<rparr>)\<rparr>)
      controller_connected = (True, controller_connected, [CurrentPlayback])
   \<and> filter is_start_playback (snd (snd (play_juna_async env_ok controller_connected)))
       = [StartPlayback (Some ''device'') [''spotify:track:2mWfVxEo4xZYDaz0v7hYrN'']]
   \<and> play_juna_async (env_ok\<lparr>current_playback_result := Inl OSError\<rparr>) controller_connected
       = (False, controller_connected, [CurrentPlayback])"
  using C7_query_then_start[of controller_connected
        "env_ok\<lparr>current_playback_result :=
          Inr (Some \<lparr>pb_item = Some \<lparr>uri = ''spotify:track:2mWfVxEo4xZYDaz0v7hYrN''\<rparr>,
                     pb_is_playing = True\<rparr>)\<rparr>"]
        C7_query_then_start[of controller_connected env_ok]
        C7_query_then_start[of controller_connected
          "env_ok\<lparr>current_playback_result := Inl OSError\<rparr>"]
  by (simp add: controller_connected_def controller_new_def env_ok_def already_playing_def)

text \<open>
  C9: \<^verbatim>\<open>play_juna\<close> returns \<^verbatim>\<open>True\<close> exactly when the client is initialized, whatever the
  outside answers to the attempt it starts: the outcome of the attempt does not reach the
  caller.
\<close>

theorem C9_play_juna_result:
  "fst (play_juna e self) = (sp self \<noteq> None)
   \<and> fst (play_juna e self) = fst (play_juna e' self)"
  by (simp add: play_juna_def split: option.splits prod.splits)

text \<open>An attempt that fails at the start-playback command: the attempt yields \<^verbatim>\<open>False\<close>, the caller sees \<^verbatim>\<open>True\<close>.\<close>

lemma failed_attempt_unreported:
  "fst (play_juna_async (env_ok\<lparr>start_playback_result := Inl RemoteError\<rparr>) controller_connected)
     = False
   \<and> fst (play_juna (env_ok\<lparr>start_playback_result := Inl RemoteError\<rparr>) controller_connected)
     = True"
  by (simp add: play_juna_def play_juna_async_def play_juna_async_try_def controller_connected_def
        controller_new_def env_ok_def)

end
